theory Spec2Isabelle
  imports Complex_Main "HOL-Library.Multiset"
begin

section \<open>Python strings, restricted to ASCII\<close>

text \<open>
  A Python \<open>str\<close> is modelled as a \<open>string\<close> (a list of 8-bit characters). The
  operations below are the ASCII fragments of \<open>str.lower\<close>, \<open>str.strip\<close>,
  \<open>str.split\<close>, the substring test \<open>k in s\<close> and \<open>str.replace(k, '')\<close>:
  characters outside ASCII are left as they are by \<open>lower\<close> and are never white space.
\<close>

definition upper_letters :: string where
  "upper_letters = ''ABCDEFGHIJKLMNOPQRSTUVWXYZ''"

definition lower_letters :: string where
  "lower_letters = ''abcdefghijklmnopqrstuvwxyz''"

definition lower_char :: "char \<Rightarrow> char" where
  "lower_char c = (case map_of (zip upper_letters lower_letters) c of Some l \<Rightarrow> l | None \<Rightarrow> c)"

definition lower :: "string \<Rightarrow> string" where
  "lower s = map lower_char s"

definition is_space :: "char \<Rightarrow> bool" where
  \<comment> \<open>\<open>str.isspace\<close> on ASCII: tab, line feed, vertical tab, form feed, carriage
      return, the separators 0x1c to 0x1f, and the blank.\<close>
  "is_space c =
     (c \<in> set [CHR 0x09, CHR 0x0A, CHR 0x0B, CHR 0x0C, CHR 0x0D,
                CHR 0x1C, CHR 0x1D, CHR 0x1E, CHR 0x1F, CHR 0x20])"

definition strip :: "string \<Rightarrow> string" where
  "strip s = rev (dropWhile is_space (rev (dropWhile is_space s)))"

fun split_acc :: "string \<Rightarrow> string \<Rightarrow> string list" where
  "split_acc cur [] = (if cur = [] then [] else [rev cur])"
| "split_acc cur (c # cs) =
     (if is_space c then (if cur = [] then split_acc [] cs else rev cur # split_acc [] cs)
      else split_acc (c # cur) cs)"

definition split :: "string \<Rightarrow> string list" where
  \<comment> \<open>\<open>s.split()\<close>: the maximal runs of characters that are not white space.\<close>
  "split s = split_acc [] s"

fun starts_with :: "string \<Rightarrow> string \<Rightarrow> bool" where
  "starts_with s [] = True"
| "starts_with [] (k # ks) = False"
| "starts_with (c # cs) (k # ks) = (c = k \<and> starts_with cs ks)"

fun contains :: "string \<Rightarrow> string \<Rightarrow> bool" where
  \<comment> \<open>\<open>contains s k\<close> is Python's \<open>k in s\<close>.\<close>
  "contains [] k = (k = [])"
| "contains (c # cs) k = (starts_with (c # cs) k \<or> contains cs k)"

definition any_in :: "string list \<Rightarrow> string \<Rightarrow> bool" where
  \<comment> \<open>\<open>any(keyword in s for keyword in keywords)\<close>\<close>
  "any_in keywords s = list_ex (contains s) keywords"

fun remove_skip :: "string \<Rightarrow> nat \<Rightarrow> string \<Rightarrow> string" where
  "remove_skip k n [] = []"
| "remove_skip k n (c # cs) =
     (if 0 < n then remove_skip k (n - 1) cs
      else if starts_with (c # cs) k then remove_skip k (length k - 1) cs
      else c # remove_skip k 0 cs)"

definition remove_all :: "string \<Rightarrow> string \<Rightarrow> string" where
  \<comment> \<open>\<open>s.replace(k, '')\<close> for a non-empty \<open>k\<close>: the occurrences of \<open>k\<close> are deleted
      from left to right, without overlap.\<close>
  "remove_all s k = remove_skip k 0 s"

section \<open>The validation clamps\<close>

text \<open>
  Python floats are modelled as real numbers: every constant of the two functions is a
  decimal fraction and the only operations are comparison, \<open>max\<close> and a product with a
  constant, so the model is the exact-arithmetic reading of the code. NaN and the
  infinities are not represented.
\<close>

subsection \<open>\<open>RobustCareerAnalyzer._intelligent_validation\<close> (robust\_ai.py)\<close>

definition validation_caps :: "string \<Rightarrow> real \<times> real" where
  \<comment> \<open>the \<open>if\<close>/\<open>elif\<close> chain choosing \<open>(max_lifetime, max_ten_year)\<close>\<close>
  "validation_caps aspiration_lower =
     (if any_in [''farm'', ''agriculture'', ''labor'', ''clean'', ''driver'', ''security'',
                 ''retail''] aspiration_lower
      then (600000, 120000)
      else if any_in [''teacher'', ''nurse'', ''police'', ''clerk'', ''assistant'']
                aspiration_lower
      then (1200000, 200000)
      else if any_in [''engineer'', ''accountant'', ''manager'', ''analyst'', ''designer'']
                aspiration_lower
      then (3000000, 500000)
      else if any_in [''doctor'', ''lawyer'', ''software'', ''consultant'', ''finance'']
                aspiration_lower
      then (5000000, 800000)
      else if any_in [''entrepreneur'', ''business'', ''startup'', ''ceo''] aspiration_lower
      then (8000000, 1200000)
      else (2500000, 400000))"

definition validation_country_multipliers :: "(string \<times> real) list" where
  "validation_country_multipliers =
     [(''usa'', 1), (''united states'', 1), (''america'', 1),
      (''canada'', 0.9), (''australia'', 0.9), (''uk'', 0.9), (''united kingdom'', 0.9),
      (''germany'', 0.8), (''france'', 0.8), (''japan'', 0.8), (''singapore'', 0.9),
      (''india'', 0.6), (''china'', 0.5), (''brazil'', 0.4), (''mexico'', 0.4),
      (''nigeria'', 0.3), (''bangladesh'', 0.3), (''pakistan'', 0.3)]"

definition dict_get :: "('k \<times> 'v) list \<Rightarrow> 'k \<Rightarrow> 'v \<Rightarrow> 'v" where
  \<comment> \<open>\<open>d.get(key, default)\<close> for a dictionary literal with distinct keys\<close>
  "dict_get d key dflt = (case map_of d key of Some v \<Rightarrow> v | None \<Rightarrow> dflt)"

definition intelligent_validation :: "string \<Rightarrow> string \<Rightarrow> real \<Rightarrow> real \<Rightarrow> real \<times> real" where
  "intelligent_validation aspiration country lifetime_nw ten_year_nw =
     (let aspiration_lower = strip (lower aspiration);
          (max_lifetime, max_ten_year) = validation_caps aspiration_lower;
          multiplier = dict_get validation_country_multipliers (lower country) 0.5;
          max_lifetime = max_lifetime * multiplier;
          max_ten_year = max_ten_year * multiplier;
          lifetime_nw = (if lifetime_nw > max_lifetime then max_lifetime else lifetime_nw);
          ten_year_nw = (if ten_year_nw > max_ten_year then max_ten_year else ten_year_nw);
          ten_year_nw = (if ten_year_nw > lifetime_nw * 0.7 then lifetime_nw * 0.4
                         else ten_year_nw);
          lifetime_nw = max 50000 lifetime_nw;
          ten_year_nw = max 10000 ten_year_nw
      in (lifetime_nw, ten_year_nw))"

subsection \<open>\<open>validate_wealth_estimates\<close> (main.py)\<close>

definition career_caps :: "(string \<times> real \<times> real) list" where
  \<comment> \<open>the dictionary literal, in insertion order (the order the loop visits it)\<close>
  "career_caps =
     [(''farmer'', 500000, 100000), (''farming'', 500000, 100000),
      (''agriculture'', 600000, 120000), (''teacher'', 800000, 150000),
      (''teaching'', 800000, 150000), (''retail'', 600000, 100000),
      (''cashier'', 400000, 80000), (''waiter'', 400000, 80000),
      (''driver'', 500000, 100000), (''security'', 500000, 90000),
      (''cleaner'', 350000, 70000), (''cook'', 450000, 90000),
      (''nurse'', 1200000, 200000), (''engineer'', 2500000, 450000),
      (''accountant'', 1500000, 250000), (''manager'', 2000000, 350000),
      (''analyst'', 1800000, 300000), (''designer'', 1400000, 250000),
      (''marketing'', 1600000, 280000), (''sales'', 1800000, 300000),
      (''doctor'', 4000000, 600000), (''lawyer'', 3500000, 500000),
      (''software'', 3000000, 500000), (''consultant'', 3500000, 550000),
      (''finance'', 4000000, 600000), (''investment'', 5000000, 800000),
      (''entrepreneur'', 10000000, 1000000)]"

definition validate_wealth_estimates :: "string \<Rightarrow> real \<Rightarrow> real \<Rightarrow> real \<times> real" where
  "validate_wealth_estimates aspiration lifetime_nw ten_year_nw =
     (let aspiration_lower = lower aspiration;
          found = find (\<lambda>(career_keyword, caps). contains aspiration_lower career_keyword)
                    career_caps;
          (lifetime_nw, ten_year_nw) =
            (case found of
               Some (career_keyword, lifetime_cap, ten_year_cap) \<Rightarrow>
                 (if lifetime_cap \<noteq> 0 \<and> ten_year_cap \<noteq> 0
                  then (if lifetime_nw > lifetime_cap then lifetime_cap else lifetime_nw,
                        if ten_year_nw > ten_year_cap then ten_year_cap else ten_year_nw)
                  else (lifetime_nw, ten_year_nw))
             | None \<Rightarrow> (lifetime_nw, ten_year_nw));
          lifetime_nw = (if lifetime_nw > 20000000 then 20000000 else lifetime_nw);
          ten_year_nw = (if ten_year_nw > lifetime_nw * 0.6 then lifetime_nw * 0.3
                         else ten_year_nw);
          ten_year_nw = (if ten_year_nw < 10000 then 10000 else ten_year_nw);
          lifetime_nw = (if lifetime_nw < 50000 then 50000 else lifetime_nw)
      in (lifetime_nw, ten_year_nw))"

subsection \<open>\<open>RobustCareerAnalyzer._get_intelligent_fallback\<close> (robust\_ai.py)\<close>

definition fallback_base :: "string \<Rightarrow> real \<times> real" where
  \<comment> \<open>the \<open>if\<close>/\<open>elif\<close> chain choosing \<open>(base_lifetime, base_ten_year)\<close>\<close>
  "fallback_base aspiration_lower =
     (if any_in [''ai scientist'', ''ai engineer'', ''artificial intelligence'', ''openai'']
           aspiration_lower
      then (3500000, 500000)
      else if any_in [''data scientist'', ''machine learning'', ''ml engineer'',
                      ''ai researcher''] aspiration_lower
      then (2800000, 420000)
      else if any_in [''research scientist'', ''computer scientist''] aspiration_lower
      then (3000000, 450000)
      else if any_in [''software'', ''programmer'', ''developer'', ''tech''] aspiration_lower
      then (2200000, 380000)
      else if any_in [''engineer'', ''technical''] aspiration_lower
      then (2000000, 350000)
      else if any_in [''doctor'', ''physician''] aspiration_lower
      then (3200000, 500000)
      else if any_in [''lawyer'', ''attorney''] aspiration_lower
      then (2800000, 450000)
      else if any_in [''finance'', ''investment''] aspiration_lower
      then (2500000, 420000)
      else if any_in [''consultant'', ''consulting''] aspiration_lower
      then (2300000, 400000)
      else if any_in [''teacher'', ''education''] aspiration_lower
      then (900000, 150000)
      else if any_in [''nurse'', ''healthcare''] aspiration_lower
      then (1100000, 180000)
      else if any_in [''business'', ''entrepreneur''] aspiration_lower
      then (1500000, 250000)
      else if any_in [''farm'', ''agriculture''] aspiration_lower
      then (500000, 80000)
      else (1200000, 200000))"

definition fallback_country_multipliers :: "(string \<times> real) list" where
  "fallback_country_multipliers =
     [(''usa'', 1), (''united states'', 1), (''america'', 1),
      (''canada'', 0.9), (''australia'', 0.9), (''uk'', 0.9), (''united kingdom'', 0.9),
      (''germany'', 0.8), (''france'', 0.8), (''japan'', 0.8), (''singapore'', 0.9),
      (''india'', 0.6), (''china'', 0.5), (''brazil'', 0.4), (''mexico'', 0.4)]"

definition get_intelligent_fallback :: "string \<Rightarrow> string \<Rightarrow> real \<times> real" where
  "get_intelligent_fallback aspiration country =
     (let aspiration_lower = strip (lower aspiration);
          (base_lifetime, base_ten_year) = fallback_base aspiration_lower;
          multiplier = dict_get fallback_country_multipliers (lower country) 0.5;
          final_lifetime = base_lifetime * multiplier;
          final_ten_year = base_ten_year * multiplier
      in (final_lifetime, final_ten_year))"

section \<open>Python regular expressions, as far as the sources use them\<close>

text \<open>
  The sources read the replies of the generative service with \<open>re.search\<close> and
  \<open>re.findall\<close>. The patterns they use are built from single characters, the classes
  \<open>\d\<close>, \<open>\s\<close>, \<open>.\<close> and bracket classes, the word boundary \<open>\b\<close>, sequence, the
  greedy \<open>?\<close>, \<open>*\<close>, \<open>+\<close> and \<open>{m,n}\<close>, the lazy \<open>*?\<close>, and one capturing group that
  ends the pattern or is followed by \<open>\b\<close>. The matcher below is the backtracking
  matcher of \<open>re\<close> for this fragment over ASCII: \<open>re_match r p\<close> lists the positions
  where a match of \<open>r\<close> begun at \<open>p\<close> can end, in the order backtracking tries them.
  A position is the character before it (for \<open>\b\<close>) and the input that remains.
\<close>

definition is_digit :: "char \<Rightarrow> bool" where
  "is_digit c = (c \<in> set ''0123456789'')"

definition is_word :: "char \<Rightarrow> bool" where
  \<comment> \<open>\<open>\w\<close> on ASCII: digits, letters and the underscore\<close>
  "is_word c =
     (is_digit c \<or> c \<in> set upper_letters \<or> c \<in> set lower_letters \<or> c = CHR ''_'')"

type_synonym pos = "char option \<times> string"

datatype re = Eps | Atom "char \<Rightarrow> bool" | WordB | Seq re re | Alt re re | Star re | Lazy re

definition word_boundary :: "pos \<Rightarrow> bool" where
  "word_boundary p =
     ((case fst p of None \<Rightarrow> False | Some c \<Rightarrow> is_word c) \<noteq>
      (case snd p of [] \<Rightarrow> False | c # cs \<Rightarrow> is_word c))"

function re_match :: "re \<Rightarrow> pos \<Rightarrow> pos list" where
  "re_match Eps p = [p]"
| "re_match (Atom f) p =
     (case snd p of [] \<Rightarrow> [] | c # cs \<Rightarrow> if f c then [(Some c, cs)] else [])"
| "re_match WordB p = (if word_boundary p then [p] else [])"
| "re_match (Seq a b) p = concat (map (re_match b) (re_match a p))"
| "re_match (Alt a b) p = re_match a p @ re_match b p"
| "re_match (Star a) p =
     concat (map (re_match (Star a))
               (filter (\<lambda>q. length (snd q) < length (snd p)) (re_match a p))) @ [p]"
| "re_match (Lazy a) p =
     p # concat (map (re_match (Lazy a))
                   (filter (\<lambda>q. length (snd q) < length (snd p)) (re_match a p)))"
  by pat_completeness auto
termination
  by (relation "inv_image (less_than <*lex*> less_than) (\<lambda>(r, p). (size r, length (snd p)))")
    auto

declare re_match.simps [simp del]

text \<open>
  A pattern is given in three parts: what precedes the group, the group, and what
  follows it. \<open>first_match\<close> is the match \<open>re\<close> finds at one start position: the text of
  the group and the position where the whole match ends.
\<close>

definition first_match :: "re \<Rightarrow> re \<Rightarrow> re \<Rightarrow> pos \<Rightarrow> (string \<times> pos) option" where
  "first_match pre grp suf p =
     (case concat (map (\<lambda>q1. concat (map (\<lambda>q2.
               map (\<lambda>q3. (take (length (snd q1) - length (snd q2)) (snd q1), q3))
                 (re_match suf q2)) (re_match grp q1))) (re_match pre p)) of
        [] \<Rightarrow> None
      | x # xs \<Rightarrow> Some x)"

fun search_from :: "re \<Rightarrow> re \<Rightarrow> re \<Rightarrow> char option \<Rightarrow> string \<Rightarrow> string option" where
  "search_from pre grp suf prev [] = map_option fst (first_match pre grp suf (prev, []))"
| "search_from pre grp suf prev (c # cs) =
     (case first_match pre grp suf (prev, c # cs) of
        Some (g, q) \<Rightarrow> Some g
      | None \<Rightarrow> search_from pre grp suf (Some c) cs)"

definition re_search :: "re \<Rightarrow> re \<Rightarrow> re \<Rightarrow> string \<Rightarrow> string option" where
  \<comment> \<open>\<open>re.search(pattern, s)\<close> followed by \<open>.group(1)\<close>; \<open>None\<close> when nothing matches\<close>
  "re_search pre grp suf s = search_from pre grp suf None s"

function findall_from :: "re \<Rightarrow> re \<Rightarrow> re \<Rightarrow> char option \<Rightarrow> string \<Rightarrow> string list" where
  "findall_from pre grp suf prev s =
     (case first_match pre grp suf (prev, s) of
        Some (g, q) \<Rightarrow>
          (if length (snd q) < length s then g # findall_from pre grp suf (fst q) (snd q)
           else g # (case s of [] \<Rightarrow> [] | c # cs \<Rightarrow> findall_from pre grp suf (Some c) cs))
      | None \<Rightarrow> (case s of [] \<Rightarrow> [] | c # cs \<Rightarrow> findall_from pre grp suf (Some c) cs))"
  by pat_completeness auto
termination
  by (relation "measure (\<lambda>(pre, grp, suf, prev, s). length s)") auto

declare findall_from.simps [simp del]

definition re_findall :: "re \<Rightarrow> re \<Rightarrow> re \<Rightarrow> string \<Rightarrow> string list" where
  \<comment> \<open>\<open>re.findall(pattern, s)\<close>: the groups of the matches, from left to right, each
      search starting where the last match ended\<close>
  "re_findall pre grp suf s = findall_from pre grp suf None s"

definition chr :: "char \<Rightarrow> re" where
  "chr c = Atom (\<lambda>x. x = c)"

definition chr_i :: "char \<Rightarrow> re" where
  \<comment> \<open>a character under \<open>re.IGNORECASE\<close>\<close>
  "chr_i c = Atom (\<lambda>x. lower_char x = lower_char c)"

definition seqs :: "re list \<Rightarrow> re" where
  "seqs rs = foldr Seq rs Eps"

definition lit :: "string \<Rightarrow> re" where
  "lit s = seqs (map chr s)"

definition lit_i :: "string \<Rightarrow> re" where
  "lit_i s = seqs (map chr_i s)"

definition opt :: "re \<Rightarrow> re" where
  \<comment> \<open>the greedy \<open>r?\<close>\<close>
  "opt r = Alt r Eps"

definition plus :: "re \<Rightarrow> re" where
  \<comment> \<open>the greedy \<open>r+\<close>\<close>
  "plus r = Seq r (Star r)"

definition digit :: re where
  "digit = Atom is_digit"

definition dot :: re where
  \<comment> \<open>\<open>.\<close> without \<open>re.DOTALL\<close>: any character but the line feed\<close>
  "dot = Atom (\<lambda>x. x \<noteq> CHR 0x0A)"

definition spaces :: re where
  \<comment> \<open>\<open>\s*\<close>\<close>
  "spaces = Star (Atom is_space)"

definition seps :: re where
  \<comment> \<open>\<open>[_\s]*\<close>\<close>
  "seps = Star (Atom (\<lambda>x. x = CHR ''_'' \<or> is_space x))"

definition number :: re where
  \<comment> \<open>\<open>\d{1,3}(?:,?\d{3})*\<close>\<close>
  "number = Seq (Seq digit (opt (Seq digit (opt digit))))
              (Star (Seq (opt (chr CHR '','')) (Seq digit (Seq digit digit))))"

definition digit_value :: "char \<Rightarrow> 'a::semiring_1" where
  "digit_value c =
     (case map_of (zip ''0123456789'' [0, 1, 2, 3, 4, 5, 6, 7, 8, 9]) c of
        Some d \<Rightarrow> d
      | None \<Rightarrow> 0)"

definition digits_value :: "string \<Rightarrow> 'a::semiring_1" where
  \<comment> \<open>the number a string of decimal digits denotes, as \<open>int\<close> and \<open>float\<close> read it\<close>
  "digits_value s = foldl (\<lambda>n c. 10 * n + digit_value c) 0 s"

definition number_value :: "string \<Rightarrow> real" where
  \<comment> \<open>\<open>float(n.replace(',', ''))\<close> for a group of \<open>number\<close>\<close>
  "number_value n = digits_value (filter (\<lambda>c. c \<noteq> CHR '','') n)"

definition py_float :: "string \<Rightarrow> real option" where
  \<comment> \<open>\<open>float(s)\<close> for a string of digits and dots: \<open>None\<close> is the \<open>ValueError\<close> of a
      string with two dots or with no digit\<close>
  "py_float s =
     (let whole = takeWhile (\<lambda>c. c \<noteq> CHR ''.'') s;
          rest = dropWhile (\<lambda>c. c \<noteq> CHR ''.'') s
      in case rest of
           [] \<Rightarrow> (if whole = [] then None else Some (digits_value whole))
         | d # fraction \<Rightarrow>
             (if CHR ''.'' \<in> set fraction \<or> (whole = [] \<and> fraction = []) then None
              else Some (digits_value whole + digits_value fraction / 10 ^ length fraction)))"

section \<open>\<open>get_success_probability\<close> (main.py)\<close>

text \<open>
  The function makes up to two calls of the generative service. Each call either returns
  a text or raises; the two outcomes are the arguments \<open>response\<close> and
  \<open>simple_response\<close> (\<open>None\<close>: the call raised). Of \<open>user_data\<close> only the age decides
  the result. The reasoning texts the function formats are represented by the place
  that formats them.
\<close>

datatype reasoning = Parsed_reasoning string | Simple_reasoning | Fallback_reason

definition tier_probabilities :: "(string \<times> real) list" where
  "tier_probabilities =
     [(''S+'', 0.85), (''S'', 0.75), (''A+'', 0.65), (''A'', 0.55),
      (''B+'', 0.45), (''B'', 0.35), (''C'', 0.25)]"

definition parsed_probability :: "string \<Rightarrow> (real \<times> reasoning) option" where
  \<comment> \<open>the body of the \<open>try\<close> after the first call returned \<open>response\<close>. \<open>None\<close>: an
      exception reached the handler, either the \<open>ValueError\<close> of \<open>float\<close> or the
      \<open>NameError\<close> of the fallback parsing, which reads the undefined name \<open>content\<close>.\<close>
  "parsed_probability response =
     (let prob_match = re_search (seqs [lit ''PROBABILITY:'', spaces])
                         (plus (Atom (\<lambda>x. is_digit x \<or> x = CHR ''.''))) Eps response;
          reason_match = re_search (seqs [lit ''REASONING:'', spaces])
                           (plus (Atom (\<lambda>x. True))) Eps response
      in case (prob_match, reason_match) of
           (Some p, Some r) \<Rightarrow>
             (case py_float p of
                None \<Rightarrow> None
              | Some probability \<Rightarrow>
                  Some (max 0.1 (min 0.95 probability), Parsed_reasoning (strip r)))
         | _ \<Rightarrow> None)"

definition simple_probability :: "string \<Rightarrow> (real \<times> reasoning) option" where
  \<comment> \<open>the handler's own \<open>try\<close> after the second call returned \<open>response\<close>. \<open>None\<close>: no
      number was found.\<close>
  "simple_probability response =
     (case re_findall Eps (seqs [chr CHR ''0'', chr CHR ''.'', plus digit]) Eps response of
        [] \<Rightarrow> None
      | n # ns \<Rightarrow>
          (case py_float n of
             None \<Rightarrow> None
           | Some probability \<Rightarrow> Some (max 0.1 (min 0.95 probability), Simple_reasoning)))"

definition tier_fallback_probability :: "int \<Rightarrow> string \<Rightarrow> real \<times> reasoning" where
  "tier_fallback_probability age college_tier =
     (let base_prob = dict_get tier_probabilities college_tier 0.4;
          base_prob = (if age \<le> 22 then base_prob + 0.05
                       else if age \<ge> 30 then base_prob - 0.05
                       else base_prob);
          base_prob = max 0.1 (min 0.95 base_prob)
      in (base_prob, Fallback_reason))"

definition get_success_probability ::
  "int \<Rightarrow> string \<Rightarrow> string option \<Rightarrow> string option \<Rightarrow> real \<times> reasoning" where
  "get_success_probability age college_tier response simple_response =
     (case Option.bind response parsed_probability of
        Some result \<Rightarrow> result
      | None \<Rightarrow>
          (case Option.bind simple_response simple_probability of
             Some result \<Rightarrow> result
           | None \<Rightarrow> tier_fallback_probability age college_tier))"

section \<open>Institution resolution\<close>

subsection \<open>The reference catalog\<close>

text \<open>
  \<open>university_data\<close> is a pandas table read from a file that is not part of the sources.
  A row is modelled by the four columns the code reads. A rank cell is absent when the
  table has no such column (\<open>row.get\<close> then yields its default), empty (NaN), or an
  integer; names and tiers are strings, and \<open>tier\<close> is \<open>None\<close> when the table has no
  tier column.
\<close>

datatype 'a cell = No_column | NaN | Val 'a

record row =
  university_name :: string
  tier :: "string option"
  qs_rank :: "int cell"
  nirf_rank :: "int cell"

definition row_tier :: "row \<Rightarrow> string" where
  \<comment> \<open>\<open>row.get('tier', 'A')\<close>\<close>
  "row_tier r = (case tier r of None \<Rightarrow> ''A'' | Some t \<Rightarrow> t)"

definition row_rank :: "row \<Rightarrow> int" where
  \<comment> \<open>\<open>rank = row.get('qs_rank', row.get('nirf_rank', 300))\<close>, then
      \<open>int(rank) if pd.notna(rank) else 300\<close>\<close>
  "row_rank r =
     (let rank = (case qs_rank r of
                    No_column \<Rightarrow> (case nirf_rank r of No_column \<Rightarrow> Val 300 | c \<Rightarrow> c)
                  | c \<Rightarrow> c)
      in case rank of Val n \<Rightarrow> n | _ \<Rightarrow> 300)"

subsection \<open>The external assessments\<close>

text \<open>
  Both assessments call the generative service once; \<open>response\<close> is the outcome of that
  call (\<open>None\<close>: the call raised).
\<close>

definition get_fallback_university_rating :: "string \<Rightarrow> string \<times> int" where
  \<comment> \<open>\<open>RobustUniversityAnalyzer._get_fallback_university_rating\<close>\<close>
  "get_fallback_university_rating university =
     (let name_lower = strip (lower university)
      in if any_in [''harvard'', ''mit'', ''stanford'', ''yale'', ''princeton'', ''oxford'',
                    ''cambridge'', ''iit bombay'', ''iit delhi'', ''iit madras'',
                    ''iit kanpur'', ''iit kharagpur''] name_lower
         then (''S+'', 92)
         else if any_in [''columbia'', ''brown'', ''cornell'', ''dartmouth'', ''upenn'',
                         ''berkeley'', ''ucla'', ''university of chicago'', ''northwestern'',
                         ''duke'', ''johns hopkins'', ''iit roorkee'', ''iit guwahati'',
                         ''iisc bangalore'', ''iim ahmedabad'', ''iim bangalore''] name_lower
         then (''S'', 85)
         else if any_in [''university of michigan'', ''georgia tech'', ''carnegie mellon'',
                         ''virginia tech'', ''nit trichy'', ''nit warangal'',
                         ''nit surathkal'', ''bits pilani'', ''dtu'', ''nsit''] name_lower
         then (''A+'', 75)
         else if any_in [''institute'', ''college'', ''university''] name_lower
         then (''B'', 45)
         else (''C'', 35))"

definition get_strict_university_assessment :: "string option \<Rightarrow> string \<Rightarrow> string \<times> int" where
  \<comment> \<open>\<open>RobustUniversityAnalyzer.get_strict_university_assessment\<close>. The source makes the
      call through the name \<open>groq_service\<close>, which robust\_ai.py imports only under the name
      \<open>ai_service\<close>: as the file stands the call raises \<open>NameError\<close> and \<open>response\<close> is
      \<open>None\<close>. The parsing of a reply is modelled all the same.\<close>
  "get_strict_university_assessment response university =
     (case response of
        None \<Rightarrow> get_fallback_university_rating university
      | Some content \<Rightarrow>
          (let tier_match = re_search (seqs [lit ''TIER:'', spaces])
                              (plus (Atom (\<lambda>x. x \<in> set upper_letters \<or> x = CHR ''+''))) Eps
                              content;
               score_match = re_search (seqs [lit ''SCORE:'', spaces]) (plus digit) Eps content
           in case (tier_match, score_match) of
                (Some t, Some score) \<Rightarrow> (t, min (digits_value score) 95)
              | _ \<Rightarrow>
                  (if contains content ''S+'' \<or> contains content ''S tier'' then (''S+'', 95)
                   else if contains content ''S'' then (''S'', 88)
                   else if contains content ''A+'' then (''A+'', 78)
                   else if contains content ''A'' then (''A'', 68)
                   else if contains content ''B+'' then (''B+'', 58)
                   else if contains content ''B'' then (''B'', 48)
                   else (''C'', 35))))"

definition get_ai_university_assessment :: "string option \<Rightarrow> string \<Rightarrow> string \<times> int" where
  \<comment> \<open>\<open>get_ai_university_assessment\<close> of main.py. When the two patterns do not both
      match, the fallback parsing reads the undefined name \<open>content\<close>; the \<open>NameError\<close>
      is caught and the final fallback answers, as it does when the call raised.\<close>
  "get_ai_university_assessment response college_name =
     (let final_fallback =
            (if contains (lower college_name) ''university of''
                \<and> any_in [''haldia'', ''local'', ''regional''] (lower college_name)
             then (''C'', 1500) else (''B'', 800))
      in case response of
           None \<Rightarrow> final_fallback
         | Some reply \<Rightarrow>
             (let tier_match = re_search (seqs [lit ''TIER:'', spaces])
                                 (Seq (Atom (\<lambda>x. x = CHR ''A'' \<or> x = CHR ''B'' \<or> x = CHR ''C''))
                                      (opt (chr CHR ''+''))) Eps reply;
                  rank_match = re_search (seqs [lit ''RANK:'', spaces]) (plus digit) Eps reply
              in case (tier_match, rank_match) of
                   (Some t, Some rank) \<Rightarrow> (t, digits_value rank)
                 | _ \<Rightarrow> final_fallback))"

subsection \<open>\<open>find_university_tier\<close> (main.py)\<close>

text \<open>
  The source returns the pair \<open>(tier, rank)\<close> from one of four \<open>return\<close> statements and
  logs which one. The model returns the pair together with that statement: \<open>Exact\<close>
  for the exact pass, \<open>Fuzzy\<close> with the best score for the scored pass, \<open>External\<close> for
  the two statements that hand the name to an external assessment.
\<close>

datatype resolution_method = Exact | Fuzzy real | External

definition abbreviations :: "string list" where
  "abbreviations = [''iit'', ''nit'', ''iisc'', ''iim'', ''bits'']"

definition py_max :: "real list \<Rightarrow> real" where
  \<comment> \<open>\<open>max(xs)\<close> of a list that is not empty\<close>
  "py_max xs = foldl max (hd xs) (tl xs)"

definition entry_matches :: "string \<Rightarrow> string set \<Rightarrow> row \<Rightarrow> real list" where
  \<comment> \<open>the list \<open>matches\<close> the loop body builds for one row\<close>
  "entry_matches college_clean college_words r =
     (let uni_name = strip (lower (university_name r));
          uni_words = set (split uni_name)
      in (if contains uni_name college_clean then [0.9] else [])
       @ (if contains college_clean uni_name then [0.8] else [])
       @ (if card college_words > 0 \<and> card uni_words > 0
          then (let overlap = card (college_words \<inter> uni_words);
                    word_score = real overlap / real (max (card college_words) (card uni_words))
                in if word_score > 0.3 then [word_score] else [])
          else [])
       @ (if any_in abbreviations college_clean
          then (if any_in abbreviations uni_name
                then concat (map (\<lambda>keyword.
                       if contains college_clean keyword \<and> contains uni_name keyword
                       then (let college_parts = split (strip (remove_all college_clean keyword));
                                 uni_parts = split (strip (remove_all uni_name keyword))
                             in if list_ex (\<lambda>part. part \<in> set uni_parts)
                                     (filter (\<lambda>part. length part > 2) college_parts)
                                then [0.95] else [])
                       else []) abbreviations)
                else [])
          else []))"

definition scored_step ::
  "string \<Rightarrow> string set \<Rightarrow> row option \<times> real \<Rightarrow> row \<Rightarrow> row option \<times> real" where
  \<comment> \<open>one turn of the loop over the rows, on the state \<open>(best_match, best_score)\<close>\<close>
  "scored_step college_clean college_words state r =
     (let matches = entry_matches college_clean college_words r
      in if matches \<noteq> []
         then (let score = py_max matches
               in if score > snd state then (Some r, score) else state)
         else state)"

definition find_university_tier ::
  "string option \<Rightarrow> row list \<Rightarrow> string \<Rightarrow> resolution_method \<times> string \<times> int" where
  "find_university_tier response university_data college_name =
     (if university_data = [] then (External, get_ai_university_assessment response college_name)
      else
        (let college_clean = lower (strip college_name);
             college_words = set (split college_clean);
             exact_match = filter (\<lambda>r. strip (lower (university_name r)) = college_clean)
                             university_data
         in case exact_match of
              r # rs \<Rightarrow> (Exact, row_tier r, row_rank r)
            | [] \<Rightarrow>
                (let (best_match, best_score) =
                       foldl (scored_step college_clean college_words) (None, 0) university_data
                 in case best_match of
                      Some r \<Rightarrow>
                        (if best_score > 0.3 then (Fuzzy best_score, row_tier r, row_rank r)
                         else (External, get_strict_university_assessment response college_name))
                    | None \<Rightarrow>
                        (External, get_strict_university_assessment response college_name))))"

section \<open>\<open>RobustCareerAnalyzer.get_brutal_career_estimate\<close> (robust\_ai.py)\<close>

text \<open>
  The function calls the generative service up to twice. The outcomes of the two calls
  are the arguments \<open>response\<close> and \<open>simple_response\<close> (\<open>None\<close>: the call raised, and the
  \<open>except\<close> clause of that attempt took over). A pattern is written as the triple of what
  precedes its group, the group, and what follows it; all eight labelled patterns are
  searched with \<open>re.IGNORECASE\<close>.
\<close>

definition lifetime_patterns :: "(re \<times> re \<times> re) list" where
  "lifetime_patterns =
     [(seqs [lit_i ''LIFETIME_NET_WORTH:'', spaces, opt (chr CHR ''$'')], number, Eps),
      (seqs [lit_i ''LIFETIME'', seps, lit_i ''NET'', seps, lit_i ''WORTH:'', spaces,
             opt (chr CHR ''$'')], number, Eps),
      (seqs [lit_i ''Lifetime'', Lazy dot], number, Eps),
      (seqs [lit_i ''Total'', Lazy dot], number, Eps)]"

definition ten_year_patterns :: "(re \<times> re \<times> re) list" where
  "ten_year_patterns =
     [(seqs [lit_i ''TEN_YEAR_NET_WORTH:'', spaces, opt (chr CHR ''$'')], number, Eps),
      (seqs [lit_i ''TEN'', seps, lit_i ''YEAR'', seps, lit_i ''NET'', seps, lit_i ''WORTH:'',
             spaces, opt (chr CHR ''$'')], number, Eps),
      (seqs [lit_i ''10'', seps, lit_i ''year'', Lazy dot], number, Eps),
      (seqs [lit_i ''ten'', seps, lit_i ''year'', Lazy dot], number, Eps)]"

fun first_pattern :: "(re \<times> re \<times> re) list \<Rightarrow> string \<Rightarrow> real option" where
  \<comment> \<open>the loop over a pattern list: the first pattern that matches decides\<close>
  "first_pattern [] response = None"
| "first_pattern ((pre, grp, suf) # patterns) response =
     (case re_search pre grp suf response of
        Some g \<Rightarrow> Some (number_value g)
      | None \<Rightarrow> first_pattern patterns response)"

definition labeled_pair :: "string \<Rightarrow> (real \<times> real) option" where
  \<comment> \<open>the labelled stage: the pair when \<open>lifetime_nw and ten_year_nw\<close> holds, that is
      when both were found and neither is zero\<close>
  "labeled_pair response =
     (case (first_pattern lifetime_patterns response,
            first_pattern ten_year_patterns response) of
        (Some lifetime_nw, Some ten_year_nw) \<Rightarrow>
          (if lifetime_nw \<noteq> 0 \<and> ten_year_nw \<noteq> 0 then Some (lifetime_nw, ten_year_nw)
           else None)
      | _ \<Rightarrow> None)"

definition large_numbers :: "string \<Rightarrow> real list" where
  "large_numbers response =
     (let all_numbers = re_findall WordB number WordB response
      in filter (\<lambda>x. x > 10000) (map number_value all_numbers))"

definition largest_numbers_pair :: "string \<Rightarrow> (real \<times> real) option" where
  \<comment> \<open>the largest-numbers stage, up to the call of \<open>_intelligent_validation\<close>\<close>
  "largest_numbers_pair response =
     (let large_numbers = large_numbers response
      in if length large_numbers \<ge> 2
         then (case rev (sort large_numbers) of
                 lifetime_nw # second # rest \<Rightarrow>
                   Some (lifetime_nw, min second (lifetime_nw * 0.4))
               | _ \<Rightarrow> None)
         else None)"

definition primary_method :: "string \<Rightarrow> string \<Rightarrow> string option \<Rightarrow> (real \<times> real) option" where
  \<comment> \<open>the first \<open>try\<close> block; \<open>None\<close>: it ended without a \<open>return\<close>\<close>
  "primary_method aspiration country response =
     (case response of
        None \<Rightarrow> None
      | Some r \<Rightarrow>
          (case labeled_pair r of
             Some (lifetime_nw, ten_year_nw) \<Rightarrow>
               Some (intelligent_validation aspiration country lifetime_nw ten_year_nw)
           | None \<Rightarrow>
               (case largest_numbers_pair r of
                  Some (lifetime_nw, ten_year_nw) \<Rightarrow>
                    Some (intelligent_validation aspiration country lifetime_nw ten_year_nw)
                | None \<Rightarrow> None)))"

definition six_digits :: re where
  \<comment> \<open>\<open>\d{6,}\<close>\<close>
  "six_digits = seqs [digit, digit, digit, digit, digit, digit, Star digit]"

definition secondary_method :: "string \<Rightarrow> string \<Rightarrow> string option \<Rightarrow> (real \<times> real) option" where
  \<comment> \<open>the second \<open>try\<close> block; \<open>None\<close>: it ended without a \<open>return\<close>\<close>
  "secondary_method aspiration country response =
     (case response of
        None \<Rightarrow> None
      | Some r \<Rightarrow>
          (case re_findall WordB six_digits WordB r of
             n0 # n1 # rest \<Rightarrow>
               (let lifetime_nw = digits_value n0;
                    ten_year_nw = digits_value n1;
                    (lifetime_nw, ten_year_nw) =
                      (if ten_year_nw > lifetime_nw then (ten_year_nw, lifetime_nw)
                       else (lifetime_nw, ten_year_nw))
                in Some (intelligent_validation aspiration country lifetime_nw ten_year_nw))
           | _ \<Rightarrow> None))"

definition get_brutal_career_estimate ::
  "string \<Rightarrow> string \<Rightarrow> string option \<Rightarrow> string option \<Rightarrow> real \<times> real" where
  "get_brutal_career_estimate aspiration country response simple_response =
     (case primary_method aspiration country response of
        Some estimate \<Rightarrow> estimate
      | None \<Rightarrow>
          (case secondary_method aspiration country simple_response of
             Some estimate \<Rightarrow> estimate
           | None \<Rightarrow> get_intelligent_fallback aspiration country))"

section \<open>Quantities and inputs the claims speak of\<close>

text \<open>
  The score of one catalog entry is the maximum of its signals, and the best score of a
  catalog is the maximum of its entries' scores, over the loop's initial score 0.
\<close>

definition entry_score :: "string \<Rightarrow> string set \<Rightarrow> row \<Rightarrow> real option" where
  "entry_score college_clean college_words r =
     (let signals = entry_matches college_clean college_words r
      in if signals = [] then None else Some (Max (set signals)))"

definition entry_scores :: "string \<Rightarrow> string set \<Rightarrow> row list \<Rightarrow> real list" where
  "entry_scores college_clean college_words university_data =
     concat (map (\<lambda>r. case entry_score college_clean college_words r of
                         None \<Rightarrow> [] | Some s \<Rightarrow> [s]) university_data)"

definition best_entry_score :: "string \<Rightarrow> string set \<Rightarrow> row list \<Rightarrow> real" where
  "best_entry_score college_clean college_words university_data =
     Max (set (0 # entry_scores college_clean college_words university_data))"

text \<open>Catalog rows for the scenarios: the entry of the specification's scenario, a
  variant of it that differs in case and white space, and an unrelated entry.\<close>

definition mit_row :: row where
  "mit_row = \<lparr>university_name = ''Massachusetts Institute of Technology'', tier = Some ''S+'',
              qs_rank = Val 1, nirf_rank = No_column\<rparr>"

definition mit_variant_row :: row where
  "mit_variant_row = \<lparr>university_name = '' massachusetts institute of technology'',
              tier = Some ''A'', qs_rank = NaN, nirf_rank = Val 2\<rparr>"

definition smith_row :: row where
  "smith_row = \<lparr>university_name = ''Smith College'', tier = None,
              qs_rank = No_column, nirf_rank = Val 7\<rparr>"

definition no_digits :: "string option \<Rightarrow> bool" where
  \<comment> \<open>the call raised, or its reply holds no digit\<close>
  "no_digits response =
     (case response of None \<Rightarrow> True | Some r \<Rightarrow> list_all (\<lambda>c. \<not> is_digit c) r)"

section \<open>Auxiliary normal forms of the clamps\<close>

text \<open>
  Both clamps are a table lookup followed by arithmetic on the pair. The two definitions
  below name the arithmetic part, so that the lookups (which need no arithmetic) and the
  inequalities (which need no strings) are proved apart.
\<close>

definition clamp_core :: "real \<Rightarrow> real \<Rightarrow> real \<Rightarrow> real \<Rightarrow> real \<times> real" where
  "clamp_core cl ct l t =
     (let l1 = (if l > cl then cl else l);
          t1 = (if t > ct then ct else t);
          t2 = (if t1 > l1 * 0.7 then l1 * 0.4 else t1)
      in (max 50000 l1, max 10000 t2))"

definition wealth_core :: "(real \<times> real) option \<Rightarrow> real \<Rightarrow> real \<Rightarrow> real \<times> real" where
  "wealth_core caps l t =
     (let (l1, t1) =
            (case caps of
               Some (cl, ct) \<Rightarrow> (if l > cl then cl else l, if t > ct then ct else t)
             | None \<Rightarrow> (l, t));
          l2 = (if l1 > 20000000 then 20000000 else l1);
          t2 = (if t1 > l2 * 0.6 then l2 * 0.3 else t1);
          t3 = (if t2 < 10000 then 10000 else t2);
          l3 = (if l2 < 50000 then 50000 else l2)
      in (l3, t3))"

definition found_caps :: "string \<Rightarrow> (real \<times> real) option" where
  "found_caps a =
     map_option snd
       (find (\<lambda>(career_keyword, caps). contains (lower a) career_keyword) career_caps)"

section \<open>Properties of the validation clamps\<close>

lemma dict_get_cases: "dict_get d key dflt = dflt \<or> dict_get d key dflt \<in> snd ` set d"
  by (auto simp: dict_get_def split: option.splits dest!: map_of_SomeD intro: rev_image_eqI)

lemma validation_multiplier_lower:
  "3 / 10 \<le> dict_get validation_country_multipliers key 0.5"
  using dict_get_cases [of validation_country_multipliers key "0.5"]
  by (auto simp: validation_country_multipliers_def)

lemma validation_caps_lower:
  "600000 \<le> fst (validation_caps s)" "120000 \<le> snd (validation_caps s)"
  by (simp_all add: validation_caps_def)

lemma validation_caps_scaled:
  "50000 \<le> fst (validation_caps s) * dict_get validation_country_multipliers key 0.5"
  "10000 \<le> snd (validation_caps s) * dict_get validation_country_multipliers key 0.5"
proof -
  let ?m = "dict_get validation_country_multipliers key 0.5"
  have m: "3 / 10 \<le> ?m" by (rule validation_multiplier_lower)
  have l: "600000 \<le> fst (validation_caps s)" and t: "120000 \<le> snd (validation_caps s)"
    by (rule validation_caps_lower)+
  have "600000 * (3 / 10) \<le> fst (validation_caps s) * ?m"
    using l m by (intro mult_mono) simp_all
  then show "50000 \<le> fst (validation_caps s) * ?m" by simp
  have "120000 * (3 / 10) \<le> snd (validation_caps s) * ?m"
    using t m by (intro mult_mono) simp_all
  then show "10000 \<le> snd (validation_caps s) * ?m" by simp
qed

lemma intelligent_validation_core:
  "intelligent_validation a c l t =
     clamp_core
       (fst (validation_caps (strip (lower a))) *
          dict_get validation_country_multipliers (lower c) 0.5)
       (snd (validation_caps (strip (lower a))) *
          dict_get validation_country_multipliers (lower c) 0.5) l t"
  by (simp add: intelligent_validation_def clamp_core_def Let_def split_beta)

lemma clamp_core_idem:
  assumes "50000 \<le> cl" "10000 \<le> ct"
  shows "clamp_core cl ct (fst (clamp_core cl ct l t)) (snd (clamp_core cl ct l t)) =
         clamp_core cl ct l t"
  using assms by (auto simp: clamp_core_def Let_def max_def split: if_splits)

lemma clamp_core_floor:
  "50000 \<le> fst (clamp_core cl ct l t)" "10000 \<le> snd (clamp_core cl ct l t)"
  by (simp_all add: clamp_core_def Let_def)

lemma clamp_core_ratio: "snd (clamp_core cl ct l t) \<le> fst (clamp_core cl ct l t) * 0.7"
  by (auto simp: clamp_core_def Let_def max_def split: if_splits)

lemma found_caps_lower: "found_caps a = Some (cl, ct) \<Longrightarrow> 350000 \<le> cl \<and> 70000 \<le> ct"
  by (auto simp: found_caps_def career_caps_def split: if_splits)

lemma validate_wealth_estimates_core:
  "validate_wealth_estimates a l t = wealth_core (found_caps a) l t"
proof (cases "found_caps a")
  case None
  then show ?thesis
    by (simp add: validate_wealth_estimates_def wealth_core_def found_caps_def Let_def)
next
  case (Some p)
  obtain cl ct where p: "p = (cl, ct)" by (cases p)
  from Some p found_caps_lower [of a cl ct] have nz: "cl \<noteq> 0" "ct \<noteq> 0" by auto
  from Some p obtain k where
    "find (\<lambda>(career_keyword, caps). contains (lower a) career_keyword) career_caps =
       Some (k, cl, ct)"
    by (auto simp: found_caps_def)
  with Some p nz show ?thesis
    by (simp add: validate_wealth_estimates_def wealth_core_def Let_def)
qed

lemma wealth_core_idem:
  assumes "\<And>cl ct. caps = Some (cl, ct) \<Longrightarrow> 50000 \<le> cl \<and> 10000 \<le> ct"
  shows "wealth_core caps (fst (wealth_core caps l t)) (snd (wealth_core caps l t)) =
         wealth_core caps l t"
proof (cases caps)
  case None
  then show ?thesis by (auto simp: wealth_core_def Let_def split: if_splits)
next
  case (Some p)
  obtain cl ct where p: "p = (cl, ct)" by (cases p)
  with Some assms have "50000 \<le> cl" "10000 \<le> ct" by auto
  with Some p show ?thesis by (auto simp: wealth_core_def Let_def split: if_splits)
qed

lemma wealth_core_floor:
  "50000 \<le> fst (wealth_core caps l t)" "10000 \<le> snd (wealth_core caps l t)"
  by (auto simp: wealth_core_def Let_def split: option.splits prod.splits)

lemma wealth_core_ratio: "snd (wealth_core caps l t) \<le> fst (wealth_core caps l t) * 0.6"
  by (auto simp: wealth_core_def Let_def split: option.splits prod.splits if_splits)

lemma fallback_base_order:
  "0 < snd (fallback_base s)" "snd (fallback_base s) < fst (fallback_base s)"
  by (simp_all add: fallback_base_def)

lemma fallback_multiplier_pos: "0 < dict_get fallback_country_multipliers key 0.5"
  using dict_get_cases [of fallback_country_multipliers key "0.5"]
  by (auto simp: fallback_country_multipliers_def)

subsection \<open>Idempotence\<close>

text \<open>
  Claim C1. The validation clamp is idempotent: for every category string, country
  string and numeric pair, clamping the clamp's own output returns that output
  unchanged. This holds of the country-aware clamp \<open>_intelligent_validation\<close> and of
  \<open>validate_wealth_estimates\<close> alike.
\<close>

theorem validation_clamp_idempotent:
  "intelligent_validation a c (fst (intelligent_validation a c l t))
       (snd (intelligent_validation a c l t)) = intelligent_validation a c l t
   \<and> validate_wealth_estimates a (fst (validate_wealth_estimates a l t))
       (snd (validate_wealth_estimates a l t)) = validate_wealth_estimates a l t"
proof
  show "intelligent_validation a c (fst (intelligent_validation a c l t))
          (snd (intelligent_validation a c l t)) = intelligent_validation a c l t"
    unfolding intelligent_validation_core
    by (rule clamp_core_idem) (rule validation_caps_scaled)+
next
  have "\<And>cl ct. found_caps a = Some (cl, ct) \<Longrightarrow> 50000 \<le> cl \<and> 10000 \<le> ct"
    using found_caps_lower [of a] by fastforce
  then show "validate_wealth_estimates a (fst (validate_wealth_estimates a l t))
          (snd (validate_wealth_estimates a l t)) = validate_wealth_estimates a l t"
    unfolding validate_wealth_estimates_core by (rule wealth_core_idem)
qed

theorem validation_clamp_idempotent_witness:
  "intelligent_validation ''Farmer'' ''India'' 5200000 900000 = (360000, 72000)
   \<and> intelligent_validation ''Farmer'' ''India'' 360000 72000 = (360000, 72000)
   \<and> validate_wealth_estimates ''Farmer'' 5200000 900000 = (500000, 100000)
   \<and> validate_wealth_estimates ''Farmer'' 500000 100000 = (500000, 100000)"
proof -
  have e1: "intelligent_validation ''Farmer'' ''India'' 5200000 900000 = (360000, 72000)"
    by code_simp
  have e2: "validate_wealth_estimates ''Farmer'' 5200000 900000 = (500000, 100000)"
    by code_simp
  from validation_clamp_idempotent [of "''Farmer''" "''India''" 5200000 900000]
  show ?thesis unfolding e1 e2 by simp
qed

subsection \<open>Ratio bound\<close>

text \<open>
  Claim C2, as stated: for every category, country and input pair the clamp's output
  has \<open>short_horizon \<le> long_horizon * 0.6 + \<epsilon>\<close>. The country-aware clamp tests the
  pair against 70% of the long horizon, not 60%, so a pair at 68% passes unchanged: for
  an aspiration outside every keyword list and the country \<open>USA\<close>, the input
  \<open>(500000, 340000)\<close> is returned as it is, 40000 above the 60% line.
\<close>

theorem ratio_invariant_counterexample:
  "intelligent_validation ''Pilot'' ''USA'' 500000 340000 = (500000, 340000)
   \<and> \<not> snd (intelligent_validation ''Pilot'' ''USA'' 500000 340000)
         \<le> fst (intelligent_validation ''Pilot'' ''USA'' 500000 340000) * 0.6 + 1"
proof -
  have e: "intelligent_validation ''Pilot'' ''USA'' 500000 340000 = (500000, 340000)"
    by code_simp
  show ?thesis unfolding e by simp
qed

text \<open>
  Claim C2, amended: the pair returned by \<open>_intelligent_validation\<close> satisfies
  \<open>short_horizon \<le> long_horizon * 0.7\<close> and \<open>short_horizon \<le> long_horizon\<close>; the pair
  returned by \<open>validate_wealth_estimates\<close> (which has no country argument) satisfies
  \<open>short_horizon \<le> long_horizon * 0.6\<close> and \<open>short_horizon \<le> long_horizon\<close>.
\<close>

theorem ratio_invariant_amended:
  "snd (intelligent_validation a c l t) \<le> fst (intelligent_validation a c l t) * 0.7
   \<and> snd (intelligent_validation a c l t) \<le> fst (intelligent_validation a c l t)
   \<and> snd (validate_wealth_estimates a l t) \<le> fst (validate_wealth_estimates a l t) * 0.6
   \<and> snd (validate_wealth_estimates a l t) \<le> fst (validate_wealth_estimates a l t)"
proof -
  let ?p = "intelligent_validation a c l t" and ?q = "validate_wealth_estimates a l t"
  have r1: "snd ?p \<le> fst ?p * 0.7"
    unfolding intelligent_validation_core by (rule clamp_core_ratio)
  have f1: "50000 \<le> fst ?p"
    unfolding intelligent_validation_core by (rule clamp_core_floor)
  have r2: "snd ?q \<le> fst ?q * 0.6"
    unfolding validate_wealth_estimates_core by (rule wealth_core_ratio)
  have f2: "50000 \<le> fst ?q"
    unfolding validate_wealth_estimates_core by (rule wealth_core_floor)
  from r1 f1 have "snd ?p \<le> fst ?p" by simp
  moreover from r2 f2 have "snd ?q \<le> fst ?q" by simp
  ultimately show ?thesis using r1 r2 by simp
qed

theorem ratio_invariant_amended_witness:
  "(340000::real) \<le> 500000 * 0.7 \<and> (340000::real) \<le> 500000
   \<and> validate_wealth_estimates ''Pilot'' 500000 340000 = (500000, 150000)
   \<and> (150000::real) \<le> 500000 * 0.6"
proof -
  have e1: "intelligent_validation ''Pilot'' ''USA'' 500000 340000 = (500000, 340000)"
    by code_simp
  have e2: "validate_wealth_estimates ''Pilot'' 500000 340000 = (500000, 150000)"
    by code_simp
  from ratio_invariant_amended [of "''Pilot''" "''USA''" 500000 340000]
  show ?thesis unfolding e1 e2 by simp
qed

subsection \<open>Floors\<close>

text \<open>
  Claim C8. For every category, country and input pair, the pair returned by the
  validation clamp has \<open>long_horizon \<ge> 50000\<close> and \<open>short_horizon \<ge> 10000\<close>; this holds
  of \<open>_intelligent_validation\<close> and of \<open>validate_wealth_estimates\<close>.
\<close>

theorem validation_clamp_floors:
  "50000 \<le> fst (intelligent_validation a c l t)
   \<and> 10000 \<le> snd (intelligent_validation a c l t)
   \<and> 50000 \<le> fst (validate_wealth_estimates a l t)
   \<and> 10000 \<le> snd (validate_wealth_estimates a l t)"
  unfolding intelligent_validation_core validate_wealth_estimates_core
  by (intro conjI clamp_core_floor wealth_core_floor)

theorem validation_clamp_floors_witness:
  "intelligent_validation ''Teacher'' ''Nigeria'' 1200 (- 5) = (50000, 10000)
   \<and> validate_wealth_estimates ''Teacher'' 1200 (- 5) = (50000, 10000)"
proof -
  have e1: "intelligent_validation ''Teacher'' ''Nigeria'' 1200 (- 5) =
              (max 50000 1200, max 10000 (- 5))"
    by code_simp
  have e2: "validate_wealth_estimates ''Teacher'' 1200 (- 5) = (50000, 10000)"
    by code_simp
  from validation_clamp_floors [of "''Teacher''" "''Nigeria''" 1200 "- 5"]
  show ?thesis unfolding e1 e2 by simp
qed

subsection \<open>The static fallback pair\<close>

text \<open>
  Claim C10. For every aspiration string and country string, the intelligent fallback
  estimate generator returns a pair with both components strictly positive and
  \<open>short_horizon\<close> strictly below \<open>long_horizon\<close>. The generator applies no clamp: the
  bound comes from its table and its multipliers alone.
\<close>

theorem intelligent_fallback_positive_ordered:
  "0 < fst (get_intelligent_fallback aspiration country)
   \<and> 0 < snd (get_intelligent_fallback aspiration country)
   \<and> snd (get_intelligent_fallback aspiration country)
       < fst (get_intelligent_fallback aspiration country)"
  using fallback_base_order [of "strip (lower aspiration)"]
    fallback_multiplier_pos [of "lower country"]
  by (auto simp: get_intelligent_fallback_def Let_def split_beta)

theorem intelligent_fallback_positive_ordered_witness:
  "get_intelligent_fallback ''AI Scientist'' ''Brazil'' = (1400000, 200000)
   \<and> (0::real) < 200000 \<and> (200000::real) < 1400000"
proof -
  have e: "get_intelligent_fallback ''AI Scientist'' ''Brazil'' = (1400000, 200000)"
    by code_simp
  from intelligent_fallback_positive_ordered [of "''AI Scientist''" "''Brazil''"]
  show ?thesis unfolding e by simp
qed

section \<open>The success probability\<close>

lemma parsed_probability_range:
  "parsed_probability r = Some (p, why) \<Longrightarrow> 0.1 \<le> p \<and> p \<le> 0.95"
  by (auto simp: parsed_probability_def Let_def split: option.splits)

lemma simple_probability_range:
  "simple_probability r = Some (p, why) \<Longrightarrow> 0.1 \<le> p \<and> p \<le> 0.95"
  by (auto simp: simple_probability_def split: option.splits list.splits)

lemma tier_fallback_probability_range:
  "0.1 \<le> fst (tier_fallback_probability age t) \<and> fst (tier_fallback_probability age t) \<le> 0.95"
  by (simp add: tier_fallback_probability_def Let_def)

text \<open>
  Claim C9. Every value \<open>get_success_probability\<close> returns as the success probability
  lies in the closed interval from 0.1 to 0.95, whatever the two calls of the service
  produce: the parsed paths and the tier-based fallback all end in
  \<open>max(0.1, min(0.95, p))\<close>.
\<close>

theorem success_probability_in_range:
  "0.1 \<le> fst (get_success_probability age college_tier response simple_response)
   \<and> fst (get_success_probability age college_tier response simple_response) \<le> 0.95"
proof (cases "Option.bind response parsed_probability")
  case (Some result)
  obtain p why where "result = (p, why)" by (cases result)
  with Some obtain r where "parsed_probability r = Some (p, why)"
    by (cases response) auto
  from parsed_probability_range [OF this] Some \<open>result = (p, why)\<close>
  show ?thesis by (simp add: get_success_probability_def)
next
  case None
  note first = None
  show ?thesis
  proof (cases "Option.bind simple_response simple_probability")
    case (Some result)
    obtain p why where "result = (p, why)" by (cases result)
    with Some obtain r where "simple_probability r = Some (p, why)"
      by (cases simple_response) auto
    from simple_probability_range [OF this] Some first \<open>result = (p, why)\<close>
    show ?thesis by (simp add: get_success_probability_def)
  next
    case None
    with first tier_fallback_probability_range [of age college_tier]
    show ?thesis by (simp add: get_success_probability_def)
  qed
qed

theorem success_probability_in_range_witness:
  "get_success_probability 25 ''A'' (Some ''PROBABILITY: 7.5 REASONING: ok '') None
     = (0.95, Parsed_reasoning ''ok'')
   \<and> get_success_probability 35 ''C'' (Some ''PROBABILITY: 0.7.5 REASONING: ok'') None
     = (0.2, Fallback_reason)
   \<and> (0.1::real) \<le> 0.95 \<and> (0.1::real) \<le> 0.2 \<and> (0.2::real) \<le> 0.95"
proof -
  have e1: "get_success_probability 25 ''A'' (Some ''PROBABILITY: 7.5 REASONING: ok '') None
              = (0.95, Parsed_reasoning ''ok'')"
    by code_simp
  have e2: "get_success_probability 35 ''C'' (Some ''PROBABILITY: 0.7.5 REASONING: ok'') None
              = (0.2, Fallback_reason)"
    by code_simp
  from success_probability_in_range
         [of 25 "''A''" "Some ''PROBABILITY: 7.5 REASONING: ok ''" None]
       success_probability_in_range
         [of 35 "''C''" "Some ''PROBABILITY: 0.7.5 REASONING: ok''" None]
  show ?thesis unfolding e1 e2 by simp
qed

section \<open>Institution resolution\<close>

lemma entry_matches_above:
  "x \<in> set (entry_matches cc cw r) \<Longrightarrow> 0.3 < x"
  by (auto simp: entry_matches_def Let_def split: if_splits)

lemma py_max_Max: "xs \<noteq> [] \<Longrightarrow> py_max xs = Max (set xs)"
proof -
  assume "xs \<noteq> []"
  then obtain y ys where xs: "xs = y # ys" by (cases xs) auto
  have swap: "(\<lambda>x a. max a x) = (max :: real \<Rightarrow> real \<Rightarrow> real)"
    by (intro ext) (simp add: max.commute)
  have "py_max xs = foldl max y ys" by (simp add: py_max_def xs)
  also have "\<dots> = fold max ys y" by (simp add: foldl_conv_fold swap)
  also have "\<dots> = Max (set (y # ys))" by (rule Max.set_eq_fold [symmetric])
  finally show ?thesis by (simp only: xs)
qed

lemma entry_score_above: "entry_score cc cw r = Some s \<Longrightarrow> 0.3 < s"
proof -
  assume a: "entry_score cc cw r = Some s"
  then have ne: "entry_matches cc cw r \<noteq> []" and s: "s = Max (set (entry_matches cc cw r))"
    by (auto simp: entry_score_def Let_def split: if_splits)
  from ne have "s \<in> set (entry_matches cc cw r)" unfolding s by (intro Max_in) auto
  then show ?thesis by (rule entry_matches_above)
qed

lemma scored_step_score:
  "scored_step cc cw st r =
     (case entry_score cc cw r of
        None \<Rightarrow> st
      | Some s \<Rightarrow> if s > snd st then (Some r, s) else st)"
  by (simp add: scored_step_def entry_score_def Let_def py_max_Max)

lemma best_entry_score_nonneg: "0 \<le> best_entry_score cc cw rows"
  unfolding best_entry_score_def by (rule Max_ge) simp_all

lemma best_entry_score_snoc:
  "best_entry_score cc cw (rows @ [r]) =
     (case entry_score cc cw r of
        None \<Rightarrow> best_entry_score cc cw rows
      | Some s \<Rightarrow> max s (best_entry_score cc cw rows))"
proof (cases "entry_score cc cw r")
  case None
  then have "entry_scores cc cw (rows @ [r]) = entry_scores cc cw rows"
    by (simp add: entry_scores_def)
  with None show ?thesis by (simp add: best_entry_score_def)
next
  case (Some s)
  then have "entry_scores cc cw (rows @ [r]) = entry_scores cc cw rows @ [s]"
    by (simp add: entry_scores_def)
  then have "set (0 # entry_scores cc cw (rows @ [r])) =
             insert s (set (0 # entry_scores cc cw rows))"
    by auto
  then have "best_entry_score cc cw (rows @ [r]) =
             Max (insert s (set (0 # entry_scores cc cw rows)))"
    by (simp only: best_entry_score_def)
  also have "\<dots> = max s (Max (set (0 # entry_scores cc cw rows)))"
    by (rule Max_insert) simp_all
  finally show ?thesis using Some by (simp add: best_entry_score_def)
qed

lemma scored_loop:
  "snd (foldl (scored_step cc cw) (None, 0) rows) = best_entry_score cc cw rows
   \<and> (case fst (foldl (scored_step cc cw) (None, 0) rows) of
        None \<Rightarrow> best_entry_score cc cw rows = 0
      | Some r \<Rightarrow> r \<in> set rows \<and> entry_score cc cw r = Some (best_entry_score cc cw rows))"
proof (induction rows rule: rev_induct)
  case Nil
  then show ?case by (simp add: best_entry_score_def entry_scores_def)
next
  case (snoc r rows)
  let ?b = "best_entry_score cc cw rows"
  have b0: "0 \<le> ?b" by (rule best_entry_score_nonneg)
  show ?case
  proof (cases "entry_score cc cw r")
    case None
    with snoc.IH show ?thesis
      by (auto simp: scored_step_score best_entry_score_snoc split: option.splits)
  next
    case (Some s)
    with snoc.IH show ?thesis
      by (auto simp: scored_step_score best_entry_score_snoc max_def split: option.splits)
  qed
qed


lemma find_filter:
  "find P xs = (case filter P xs of [] \<Rightarrow> None | x # ys \<Rightarrow> Some x)"
  by (induction xs) simp_all

text \<open>
  Claim C3, as stated: if the trimmed, lowercased query equals the trimmed, lowercased
  name of some catalog entry, the resolver returns that entry from the exact pass,
  whatever near-duplicate entries the catalog holds. The exact pass takes the first row
  among those with the normalised name (\<open>exact_match.iloc[0]\<close>). When two rows differ
  only in case and white space, the query equals the normalised name of both, and the
  later one is not returned: below, the second row has tier A and rank 300, and the
  result is the first row's S+ and 1.
\<close>

theorem exact_match_precedence_counterexample:
  "mit_variant_row \<in> set [mit_row, mit_variant_row]
   \<and> strip (lower (university_name mit_variant_row))
       = lower (strip ''Massachusetts Institute of Technology'')
   \<and> find_university_tier None [mit_row, mit_variant_row]
         ''Massachusetts Institute of Technology'' = (Exact, ''S+'', 1)
   \<and> (row_tier mit_variant_row, row_rank mit_variant_row) = (''A'', 300)
   \<and> find_university_tier None [mit_row, mit_variant_row]
         ''Massachusetts Institute of Technology''
       \<noteq> (Exact, row_tier mit_variant_row, row_rank mit_variant_row)"
proof -
  have n: "strip (lower (university_name mit_variant_row))
             = lower (strip ''Massachusetts Institute of Technology'')"
    by code_simp
  have f: "find_university_tier None [mit_row, mit_variant_row]
             ''Massachusetts Institute of Technology'' = (Exact, ''S+'', 1)"
    by code_simp
  have v: "(row_tier mit_variant_row, row_rank mit_variant_row) = (''A'', 300)"
    by code_simp
  show ?thesis unfolding f using n v by simp
qed

text \<open>
  Claim C3, amended: if the trimmed, lowercased query equals the trimmed, lowercased
  name of some catalog entry, the resolver answers from the exact pass, before any
  scored comparison and whatever else the catalog holds, with the tier and rank of the
  first row that has this normalised name: the row's tier (\<open>A\<close> when the table has no
  tier column) and its \<open>qs_rank\<close>, or its \<open>nirf_rank\<close> when the table has no \<open>qs_rank\<close>
  column, or 300 when the cell read is empty or neither column exists. The result is
  the pair alone: the exact pass computes no score, so the method \<open>Exact\<close> carries no
  confidence.
\<close>

theorem exact_match_first_entry:
  assumes "e \<in> set university_data"
    and "strip (lower (university_name e)) = lower (strip college_name)"
  shows "\<exists>r. find (\<lambda>r. strip (lower (university_name r)) = lower (strip college_name))
               university_data = Some r
           \<and> find_university_tier response university_data college_name
               = (Exact,
                  (case tier r of None \<Rightarrow> ''A'' | Some t \<Rightarrow> t),
                  (case qs_rank r of
                     Val n \<Rightarrow> n
                   | NaN \<Rightarrow> 300
                   | No_column \<Rightarrow> (case nirf_rank r of Val n \<Rightarrow> n | _ \<Rightarrow> 300)))"
proof -
  let ?P = "\<lambda>r. strip (lower (university_name r)) = lower (strip college_name)"
  from assms have "e \<in> set (filter ?P university_data)" by simp
  then obtain r rs where f: "filter ?P university_data = r # rs"
    by (cases "filter ?P university_data") auto
  from assms(1) have ne: "university_data \<noteq> []" by auto
  have "find ?P university_data = Some r" by (simp add: find_filter f)
  moreover have "find_university_tier response university_data college_name
                   = (Exact, row_tier r, row_rank r)"
    using ne f by (simp add: find_university_tier_def Let_def)
  moreover have "row_tier r = (case tier r of None \<Rightarrow> ''A'' | Some t \<Rightarrow> t)"
    by (simp add: row_tier_def)
  moreover have "row_rank r =
      (case qs_rank r of
         Val n \<Rightarrow> n
       | NaN \<Rightarrow> 300
       | No_column \<Rightarrow> (case nirf_rank r of Val n \<Rightarrow> n | _ \<Rightarrow> 300))"
    by (simp add: row_rank_def Let_def split: cell.splits)
  ultimately show ?thesis by simp
qed

theorem exact_match_first_entry_witness:
  "find_university_tier None [smith_row, mit_row, mit_variant_row]
     ''  Massachusetts institute of TECHNOLOGY '' = (Exact, ''S+'', 1)
   \<and> find_university_tier None [mit_variant_row, mit_row]
     ''  Massachusetts institute of TECHNOLOGY '' = (Exact, ''A'', 300)
   \<and> find_university_tier None [mit_row, smith_row] ''SMITH college'' = (Exact, ''A'', 7)"
proof -
  let ?q = "''  Massachusetts institute of TECHNOLOGY ''"
  have h1: "mit_variant_row \<in> set [smith_row, mit_row, mit_variant_row]" by simp
  have h2: "strip (lower (university_name mit_variant_row)) = lower (strip ?q)"
    by code_simp
  have f1: "find (\<lambda>r. strip (lower (university_name r)) = lower (strip ?q))
              [smith_row, mit_row, mit_variant_row] = Some mit_row"
    by code_simp
  have h3: "mit_row \<in> set [mit_variant_row, mit_row]" by simp
  have h4: "strip (lower (university_name mit_row)) = lower (strip ?q)"
    by code_simp
  have f2: "find (\<lambda>r. strip (lower (university_name r)) = lower (strip ?q))
              [mit_variant_row, mit_row] = Some mit_variant_row"
    by code_simp
  have h5: "smith_row \<in> set [mit_row, smith_row]" by simp
  have h6: "strip (lower (university_name smith_row)) = lower (strip ''SMITH college'')"
    by code_simp
  have f3: "find (\<lambda>r. strip (lower (university_name r)) = lower (strip ''SMITH college''))
              [mit_row, smith_row] = Some smith_row"
    by code_simp
  from exact_match_first_entry [OF h1 h2, of None] f1
  have "find_university_tier None [smith_row, mit_row, mit_variant_row] ?q = (Exact, ''S+'', 1)"
    by (auto simp: mit_row_def)
  moreover from exact_match_first_entry [OF h3 h4, of None] f2
  have "find_university_tier None [mit_variant_row, mit_row] ?q = (Exact, ''A'', 300)"
    by (auto simp: mit_variant_row_def)
  moreover from exact_match_first_entry [OF h5 h6, of None] f3
  have "find_university_tier None [mit_row, smith_row] ''SMITH college'' = (Exact, ''A'', 7)"
    by (auto simp: smith_row_def)
  ultimately show ?thesis by simp
qed

text \<open>
  Claim C4. In the scored pass (a catalog that is not empty, no exact match) a fuzzy
  result is returned if and only if the best per-entry score, the maximum over the
  signals of every entry, strictly exceeds 0.3; it is then the result for an entry with
  that score, with the score as confidence. Otherwise the resolver hands the name to
  the external assessment.
\<close>

theorem scored_pass_threshold:
  assumes "university_data \<noteq> []"
    and "\<forall>r \<in> set university_data.
           strip (lower (university_name r)) \<noteq> lower (strip college_name)"
  shows "let college_clean = lower (strip college_name);
             college_words = set (split college_clean);
             best = best_entry_score college_clean college_words university_data;
             result = find_university_tier response university_data college_name
         in ((\<exists>s. fst result = Fuzzy s) \<longleftrightarrow> 0.3 < best)
          \<and> (0.3 < best \<longrightarrow>
               (\<exists>r \<in> set university_data.
                   entry_score college_clean college_words r = Some best
                 \<and> result = (Fuzzy best, row_tier r, row_rank r)))
          \<and> (\<not> 0.3 < best \<longrightarrow>
               result = (External, get_strict_university_assessment response college_name))"
proof -
  let ?cc = "lower (strip college_name)"
  let ?cw = "set (split ?cc)"
  let ?st = "foldl (scored_step ?cc ?cw) (None, 0) university_data"
  let ?best = "best_entry_score ?cc ?cw university_data"
  from assms(2) have f: "filter (\<lambda>r. strip (lower (university_name r)) = ?cc) university_data = []"
    by (simp add: filter_empty_conv)
  have loop: "snd ?st = ?best"
    "case fst ?st of None \<Rightarrow> ?best = 0
     | Some r \<Rightarrow> r \<in> set university_data \<and> entry_score ?cc ?cw r = Some ?best"
    using scored_loop [of ?cc ?cw university_data] by simp_all
  show ?thesis
  proof (cases "fst ?st")
    case None
    with loop have "?best = 0" by simp
    moreover from None assms(1) f
    have "find_university_tier response university_data college_name
            = (External, get_strict_university_assessment response college_name)"
      by (simp add: find_university_tier_def Let_def split_beta)
    ultimately show ?thesis by (simp add: Let_def)
  next
    case (Some r)
    with loop have r: "r \<in> set university_data" "entry_score ?cc ?cw r = Some ?best"
      by simp_all
    from entry_score_above [OF r(2)] have above: "0.3 < ?best" .
    from Some assms(1) f loop(1) above
    have "find_university_tier response university_data college_name
            = (Fuzzy ?best, row_tier r, row_rank r)"
      by (simp add: find_university_tier_def Let_def split_beta)
    with r above show ?thesis by (auto simp: Let_def)
  qed
qed

theorem scored_pass_threshold_witness:
  "find_university_tier None [smith_row, mit_row] ''Massachusetts Technology''
     = (Fuzzy 0.5, ''S+'', 1)
   \<and> find_university_tier None [smith_row, mit_row] ''Nowhere''
     = (External, get_strict_university_assessment None ''Nowhere'')"
proof -
  let ?data = "[smith_row, mit_row]"
  have ne: "?data \<noteq> []" by simp
  have x1: "\<forall>r \<in> set ?data.
              strip (lower (university_name r)) \<noteq> lower (strip ''Massachusetts Technology'')"
    by code_simp
  have x2: "\<forall>r \<in> set ?data. strip (lower (university_name r)) \<noteq> lower (strip ''Nowhere'')"
    by code_simp
  have b1: "best_entry_score (lower (strip ''Massachusetts Technology''))
              (set (split (lower (strip ''Massachusetts Technology'')))) ?data = 0.5"
    by code_simp
  have s1: "entry_score (lower (strip ''Massachusetts Technology''))
              (set (split (lower (strip ''Massachusetts Technology'')))) smith_row = None"
    by code_simp
  have b2: "best_entry_score (lower (strip ''Nowhere''))
              (set (split (lower (strip ''Nowhere'')))) ?data = 0"
    by code_simp
  have v: "row_tier mit_row = ''S+''" "row_rank mit_row = 1" by code_simp+
  from scored_pass_threshold [OF ne x1, of None]
  have "find_university_tier None ?data ''Massachusetts Technology'' = (Fuzzy 0.5, ''S+'', 1)"
    unfolding Let_def b1 using s1 v by auto
  moreover from scored_pass_threshold [OF ne x2, of None]
  have "find_university_tier None ?data ''Nowhere''
          = (External, get_strict_university_assessment None ''Nowhere'')"
    unfolding Let_def b2 by simp
  ultimately show ?thesis by simp
qed

text \<open>
  Claim C5, as stated: with the catalog entry \<open>Massachusetts Institute of Technology\<close>
  (tier S+) the query \<open>mit\<close> is resolved by the scored pass, method fuzzy, tier S+. The
  query is no substring of the entry's name, shares no word with it, and holds none of
  the five abbreviations, so the entry has no signal and the resolver hands the name to
  the external assessment. That assessment raises on its service call, and its static
  table rates \<open>mit\<close> S+ with score 92: the tier is S+, the method is not fuzzy.
\<close>

theorem mit_scenario_counterexample:
  "find_university_tier None [mit_row] ''mit'' = (External, ''S+'', 92)
   \<and> entry_matches ''mit'' (set (split ''mit'')) mit_row = []"
  by code_simp

text \<open>
  Claim C5, amended: with the catalog whose only entry is
  \<open>Massachusetts Institute of Technology\<close> (tier S+), the query \<open>mit\<close> has no exact and
  no scored match; whatever the service replies, the result is that of the external
  assessment, and when the service call raises, the static fallback table gives tier S+
  (score 92).
\<close>

theorem mit_scenario_escalates:
  "find_university_tier response [mit_row] ''mit''
     = (External, get_strict_university_assessment response ''mit'')
   \<and> get_strict_university_assessment None ''mit'' = (''S+'', 92)"
proof -
  have c: "lower (strip ''mit'') = ''mit''" by code_simp
  have n: "strip (lower (university_name mit_row)) \<noteq> ''mit''" by code_simp
  have m: "entry_matches ''mit'' (set (split ''mit'')) mit_row = []" by code_simp
  have s: "get_strict_university_assessment None ''mit'' = (''S+'', 92)" by code_simp
  show ?thesis
    by (simp add: find_university_tier_def Let_def c n m s scored_step_def)
qed

theorem mit_scenario_escalates_witness:
  "find_university_tier (Some ''TIER: S+ SCORE: 100'') [mit_row] ''mit''
     = (External, ''S+'', 95)"
proof -
  have g: "get_strict_university_assessment (Some ''TIER: S+ SCORE: 100'') ''mit''
             = (''S+'', 95)"
    by code_simp
  from mit_scenario_escalates [of "Some ''TIER: S+ SCORE: 100''"] show ?thesis
    unfolding g by simp
qed

section \<open>The career estimate cascade\<close>

lemma sort_desc_top2:
  fixes xs :: "real list"
  assumes "2 \<le> length xs"
  shows "\<exists>rest. rev (sort xs) = Max (set xs) # Max (set (remove1 (Max (set xs)) xs)) # rest"
proof -
  let ?zs = "rev (sort xs)"
  have len: "length ?zs = length xs" by simp
  with assms obtain a b rest where zs: "?zs = a # b # rest"
    by (cases ?zs; cases "tl ?zs") auto
  have srt: "sorted_wrt (\<ge>) ?zs" by (simp add: sorted_wrt_rev)
  have ms: "mset ?zs = mset xs" by simp
  then have st: "set ?zs = set xs" by (rule mset_eq_setD)
  from srt zs have a_ge: "\<forall>x \<in> set (b # rest). x \<le> a" and b_ge: "\<forall>x \<in> set rest. x \<le> b"
    by auto
  have "Max (set ?zs) = a"
    unfolding zs using a_ge by (intro Max_eqI) auto
  then have a: "Max (set xs) = a" by (simp only: st)
  have "mset (remove1 a xs) = mset xs - {#a#}" by simp
  also have "\<dots> = mset ?zs - {#a#}" by (simp only: ms)
  also have "\<dots> = mset (b # rest)" by (simp add: zs)
  finally have "set (remove1 a xs) = set (b # rest)" by (rule mset_eq_setD)
  moreover have "Max (set (b # rest)) = b"
    using b_ge by (intro Max_eqI) auto
  ultimately have "Max (set (remove1 a xs)) = b" by simp
  with a zs show ?thesis by simp
qed

lemma re_match_rest: "q \<in> set (re_match r p) \<Longrightarrow> set (snd q) \<subseteq> set (snd p)"
proof (induction r p arbitrary: q rule: re_match.induct)
  case (1 p)
  then show ?case by (simp add: re_match.simps(1))
next
  case (2 f p)
  then show ?case by (cases "snd p") (auto simp: re_match.simps(2) split: if_splits)
next
  case (3 p)
  then show ?case by (simp add: re_match.simps(3) split: if_splits)
next
  case (4 a b p)
  from "4.prems" obtain q1 where q1: "q1 \<in> set (re_match a p)" "q \<in> set (re_match b q1)"
    by (auto simp: re_match.simps(4))
  from "4.IH"(1) [OF q1(1)] "4.IH"(2) [OF q1] show ?case by blast
next
  case (5 a b p)
  from "5.prems" have "q \<in> set (re_match a p) \<or> q \<in> set (re_match b p)"
    by (simp add: re_match.simps(5))
  with "5.IH" show ?case by blast
next
  case (6 a p)
  from "6.prems" have "q \<in> set (concat (map (re_match (Star a))
               (filter (\<lambda>q. length (snd q) < length (snd p)) (re_match a p))) @ [p])"
    by (simp only: re_match.simps(6))
  then consider "q = p"
    | q1 where "q1 \<in> set (filter (\<lambda>q. length (snd q) < length (snd p)) (re_match a p))"
        "q \<in> set (re_match (Star a) q1)"
    by auto
  then show ?case
  proof cases
    case 1
    then show ?thesis by simp
  next
    case 2
    from 2(1) have "q1 \<in> set (re_match a p)" by simp
    from "6.IH"(1) [OF this] "6.IH"(2) [OF 2] show ?thesis by blast
  qed
next
  case (7 a p)
  from "7.prems" have "q \<in> set (p # concat (map (re_match (Lazy a))
               (filter (\<lambda>q. length (snd q) < length (snd p)) (re_match a p))))"
    by (simp only: re_match.simps(7))
  then consider "q = p"
    | q1 where "q1 \<in> set (filter (\<lambda>q. length (snd q) < length (snd p)) (re_match a p))"
        "q \<in> set (re_match (Lazy a) q1)"
    by auto
  then show ?case
  proof cases
    case 1
    then show ?thesis by simp
  next
    case 2
    from 2(1) have "q1 \<in> set (re_match a p)" by simp
    from "7.IH"(1) [OF this] "7.IH"(2) [OF 2] show ?thesis by blast
  qed
qed

lemma digit_first_no_match:
  assumes "list_all (\<lambda>c. \<not> is_digit c) (snd p)"
  shows "re_match (Seq digit b) p = []"
proof -
  from assms have "re_match digit p = []"
    by (cases "snd p") (simp_all add: digit_def re_match.simps(2))
  then show ?thesis by (simp add: re_match.simps(4))
qed

lemma number_no_match:
  assumes "list_all (\<lambda>c. \<not> is_digit c) (snd p)"
  shows "re_match number p = []"
  unfolding number_def
  by (subst re_match.simps(4)) (simp add: digit_first_no_match [OF assms])

lemma six_digits_no_match:
  assumes "list_all (\<lambda>c. \<not> is_digit c) (snd p)"
  shows "re_match six_digits p = []"
  unfolding six_digits_def seqs_def foldr.simps o_apply
  by (rule digit_first_no_match [OF assms])

lemma first_match_no_digits:
  assumes grp: "\<And>p. list_all (\<lambda>c. \<not> is_digit c) (snd p) \<Longrightarrow> re_match grp p = []"
    and s: "list_all (\<lambda>c. \<not> is_digit c) (snd p)"
  shows "first_match pre grp suf p = None"
proof -
  have "re_match grp q = []" if "q \<in> set (re_match pre p)" for q
  proof -
    from re_match_rest [OF that] s have "list_all (\<lambda>c. \<not> is_digit c) (snd q)"
      by (auto simp: list_all_iff)
    then show ?thesis by (rule grp)
  qed
  then have none: "concat (map (\<lambda>q1. concat (map (\<lambda>q2.
               map (\<lambda>q3. (take (length (snd q1) - length (snd q2)) (snd q1), q3))
                 (re_match suf q2)) (re_match grp q1))) (re_match pre p)) = []"
    by simp
  show ?thesis by (simp only: first_match_def none list.case)
qed

lemma search_no_digits:
  assumes grp: "\<And>p. list_all (\<lambda>c. \<not> is_digit c) (snd p) \<Longrightarrow> re_match grp p = []"
    and s: "list_all (\<lambda>c. \<not> is_digit c) s"
  shows "search_from pre grp suf prev s = None"
  using s
proof (induction s arbitrary: prev)
  case Nil
  have "first_match pre grp suf (prev, []) = None"
    by (rule first_match_no_digits) (simp_all add: grp)
  then show ?case by simp
next
  case (Cons c cs)
  have "first_match pre grp suf (prev, c # cs) = None"
    by (rule first_match_no_digits) (use Cons.prems in \<open>simp_all add: grp\<close>)
  with Cons show ?case by simp
qed

lemma findall_no_digits:
  assumes grp: "\<And>p. list_all (\<lambda>c. \<not> is_digit c) (snd p) \<Longrightarrow> re_match grp p = []"
    and s: "list_all (\<lambda>c. \<not> is_digit c) s"
  shows "findall_from pre grp suf prev s = []"
  using s
proof (induction s arbitrary: prev)
  case Nil
  have "first_match pre grp suf (prev, []) = None"
    by (rule first_match_no_digits) (simp_all add: grp)
  then show ?case by (subst findall_from.simps) simp
next
  case (Cons c cs)
  have "first_match pre grp suf (prev, c # cs) = None"
    by (rule first_match_no_digits) (use Cons.prems in \<open>simp_all add: grp\<close>)
  with Cons show ?case by (subst findall_from.simps) simp
qed

lemma search_number_no_digits:
  "list_all (\<lambda>c. \<not> is_digit c) s \<Longrightarrow> re_search pre number suf s = None"
  unfolding re_search_def by (rule search_no_digits) (simp_all add: number_no_match)

lemma findall_number_no_digits:
  "list_all (\<lambda>c. \<not> is_digit c) s \<Longrightarrow> re_findall pre number suf s = []"
  unfolding re_findall_def by (rule findall_no_digits) (simp_all add: number_no_match)

lemma findall_six_digits_no_digits:
  "list_all (\<lambda>c. \<not> is_digit c) s \<Longrightarrow> re_findall pre six_digits suf s = []"
  unfolding re_findall_def by (rule findall_no_digits) (simp_all add: six_digits_no_match)

lemma labeled_pair_no_digits:
  assumes "list_all (\<lambda>c. \<not> is_digit c) r"
  shows "labeled_pair r = None"
proof -
  have "first_pattern lifetime_patterns r = None"
    by (simp add: lifetime_patterns_def search_number_no_digits [OF assms])
  then show ?thesis by (simp add: labeled_pair_def)
qed

lemma largest_numbers_no_digits:
  assumes "list_all (\<lambda>c. \<not> is_digit c) r"
  shows "largest_numbers_pair r = None"
  by (simp add: largest_numbers_pair_def large_numbers_def Let_def
        findall_number_no_digits [OF assms])

lemma primary_no_digits: "no_digits response \<Longrightarrow> primary_method a c response = None"
  by (cases response)
    (simp_all add: primary_method_def no_digits_def labeled_pair_no_digits
       largest_numbers_no_digits)

lemma secondary_no_digits: "no_digits response \<Longrightarrow> secondary_method a c response = None"
  by (cases response)
    (simp_all add: secondary_method_def no_digits_def findall_six_digits_no_digits)

text \<open>
  Claim C6. In the largest-numbers stage, reached when the labelled patterns give no
  pair, a text with at least two number tokens above 10000 is assigned the largest such
  number as \<open>long_horizon\<close> and the smaller of the second largest and 40% of the largest
  as \<open>short_horizon\<close>; tokens of value 10000 or less take no part. The pair then goes
  through \<open>_intelligent_validation\<close>, whose result the function returns. (Token values
  are read as exact numbers.)
\<close>

theorem largest_numbers_stage:
  assumes "labeled_pair r = None" and "2 \<le> length (large_numbers r)"
  shows "let largest = Max (set (large_numbers r));
             second = Max (set (remove1 largest (large_numbers r)))
         in largest_numbers_pair r = Some (largest, min second (0.4 * largest))
          \<and> get_brutal_career_estimate aspiration country (Some r) simple_response
              = intelligent_validation aspiration country largest (min second (0.4 * largest))
          \<and> large_numbers r
              = filter (\<lambda>x. 10000 < x) (map number_value (re_findall WordB number WordB r))"
proof -
  let ?l = "Max (set (large_numbers r))"
  let ?s = "Max (set (remove1 ?l (large_numbers r)))"
  from sort_desc_top2 [OF assms(2)] obtain rest
    where "rev (sort (large_numbers r)) = ?l # ?s # rest" by blast
  with assms(2) have p: "largest_numbers_pair r = Some (?l, min ?s (0.4 * ?l))"
    by (simp add: largest_numbers_pair_def Let_def mult.commute)
  with assms(1) have "get_brutal_career_estimate aspiration country (Some r) simple_response
      = intelligent_validation aspiration country ?l (min ?s (0.4 * ?l))"
    by (simp add: get_brutal_career_estimate_def primary_method_def)
  moreover have "large_numbers r
      = filter (\<lambda>x. 10000 < x) (map number_value (re_findall WordB number WordB r))"
    by (simp add: large_numbers_def Let_def)
  ultimately show ?thesis using p by (simp add: Let_def)
qed

theorem largest_numbers_stage_witness:
  "largest_numbers_pair ''35 300000 in 2024 1500000'' = Some (1500000, 300000)
   \<and> get_brutal_career_estimate ''Pilot'' ''USA'' (Some ''35 300000 in 2024 1500000'') None
       = (1500000, 300000)
   \<and> largest_numbers_pair ''900000 1000000'' = Some (1000000, 400000)"
proof -
  let ?r = "''35 300000 in 2024 1500000''"
  have h1: "labeled_pair ?r = None" by code_simp
  have n1: "large_numbers ?r = [300000, 1500000]" by code_simp
  have h2: "2 \<le> length (large_numbers ?r)" unfolding n1 by simp
  have v: "intelligent_validation ''Pilot'' ''USA'' 1500000 300000 = (1500000, 300000)"
    by code_simp
  have g1: "labeled_pair ''900000 1000000'' = None" by code_simp
  have m1: "large_numbers ''900000 1000000'' = [900000, 1000000]" by code_simp
  have g2: "2 \<le> length (large_numbers ''900000 1000000'')" unfolding m1 by simp
  from largest_numbers_stage [OF h1 h2, of "''Pilot''" "''USA''" None]
  have "largest_numbers_pair ?r = Some (1500000, 300000)
        \<and> get_brutal_career_estimate ''Pilot'' ''USA'' (Some ?r) None = (1500000, 300000)"
    unfolding Let_def n1 using v by simp
  moreover from largest_numbers_stage [OF g1 g2, of "''Pilot''" "''USA''" None]
  have "largest_numbers_pair ''900000 1000000'' = Some (1000000, 400000)"
    unfolding Let_def m1 by simp
  ultimately show ?thesis by simp
qed

text \<open>
  Claim C7, as stated: when the cascade is exhausted the function returns the static
  base pair, scaled by the country multiplier and then passed through the validation
  clamp. The last statement of \<open>get_brutal_career_estimate\<close> returns the result of
  \<open>_get_intelligent_fallback\<close> as it is. For an AI scientist in the USA, with two replies
  that hold no number, the function returns the table's \<open>(3500000, 500000)\<close>; the clamp
  knows no keyword of that aspiration and would have cut the pair to
  \<open>(2500000, 400000)\<close>.
\<close>

theorem cascade_fallback_counterexample:
  "get_brutal_career_estimate ''AI Scientist'' ''USA''
       (Some ''I cannot give numbers.'') (Some ''Sorry.'') = (3500000, 500000)
   \<and> get_intelligent_fallback ''AI Scientist'' ''USA'' = (3500000, 500000)
   \<and> intelligent_validation ''AI Scientist'' ''USA'' 3500000 500000 = (2500000, 400000)
   \<and> get_brutal_career_estimate ''AI Scientist'' ''USA''
       (Some ''I cannot give numbers.'') (Some ''Sorry.'')
     \<noteq> intelligent_validation ''AI Scientist'' ''USA''
         (fst (get_intelligent_fallback ''AI Scientist'' ''USA''))
         (snd (get_intelligent_fallback ''AI Scientist'' ''USA''))"
proof -
  have e: "get_brutal_career_estimate ''AI Scientist'' ''USA''
             (Some ''I cannot give numbers.'') (Some ''Sorry.'') = (3500000, 500000)"
    by code_simp
  have f: "get_intelligent_fallback ''AI Scientist'' ''USA'' = (3500000, 500000)"
    by code_simp
  have v: "intelligent_validation ''AI Scientist'' ''USA'' 3500000 500000
             = (2500000, 400000)"
    by code_simp
  show ?thesis unfolding e f using v by simp
qed

text \<open>
  Claim C7, amended: when the cascade is exhausted, that is when both attempts end
  without a pair (as they do when each call of the service raises or its reply holds no
  digit), the function raises nothing and takes no number from the text: it returns the
  static category-and-country base pair scaled by the country multiplier, as
  \<open>_get_intelligent_fallback\<close> computes it, without passing it through the validation
  clamp.
\<close>

theorem cascade_exhaustion_returns_fallback:
  "(primary_method aspiration country response = None
      \<and> secondary_method aspiration country simple_response = None
    \<longrightarrow> get_brutal_career_estimate aspiration country response simple_response
          = get_intelligent_fallback aspiration country)
   \<and> (no_digits response \<and> no_digits simple_response
    \<longrightarrow> primary_method aspiration country response = None
        \<and> secondary_method aspiration country simple_response = None)"
  by (simp add: get_brutal_career_estimate_def primary_no_digits secondary_no_digits)

theorem cascade_exhaustion_returns_fallback_witness:
  "get_brutal_career_estimate ''Farmer'' ''Nigeria'' (Some ''I cannot give numbers.'') None
     = (250000, 40000)"
proof -
  have n1: "no_digits (Some ''I cannot give numbers.'')" by code_simp
  have n2: "no_digits None" by (simp add: no_digits_def)
  have f: "get_intelligent_fallback ''Farmer'' ''Nigeria'' = (250000, 40000)"
    by code_simp
  from cascade_exhaustion_returns_fallback
         [of "''Farmer''" "''Nigeria''" "Some ''I cannot give numbers.''" None] n1 n2 f
  show ?thesis by simp
qed

end
